theory Spec2Isabelle
  imports Main
begin

section \<open>Python values and string primitives used by the converters\<close>

text \<open>
  The converters are Python scripts that build JSON-LD dictionaries out of other
  dictionaries.  Strings are modelled as \<^typ>\<open>string\<close> (one \<^typ>\<open>char\<close> per code point
  below 256); the built-in string operations the scripts rely on are written out here.
  An output dictionary is an association list, because Python dictionaries keep insertion
  order and the order is part of the serialised document.
\<close>

datatype py_error = ValueError

datatype json = JNull | JStr string | JInt int | JList "json list" | JObj "(string \<times> json) list"

type_synonym dict = "(string \<times> json) list"

text \<open>\<^verbatim>\<open>d[k] = v\<close>: an existing key keeps its position, a new key goes last.\<close>

fun dict_set :: "string \<Rightarrow> json \<Rightarrow> dict \<Rightarrow> dict" where
  "dict_set k v [] = [(k, v)]"
| "dict_set k v ((k', v') # d) = (if k = k' then (k, v) # d else (k', v') # dict_set k v d)"

text \<open>\<^verbatim>\<open>k in d\<close> and \<^verbatim>\<open>d.get(k)\<close>.\<close>

definition has_key :: "string \<Rightarrow> dict \<Rightarrow> bool" where
  "has_key k d = (k \<in> set (map fst d))"

definition dict_get :: "dict \<Rightarrow> string \<Rightarrow> json option" where
  "dict_get d k = map_of d k"

text \<open>\<^verbatim>\<open>d.get(k, default)\<close> on an optional field, and Python truthiness of an optional string.\<close>

definition get_or :: "'a option \<Rightarrow> 'a \<Rightarrow> 'a" where
  "get_or x dflt = (case x of None \<Rightarrow> dflt | Some v \<Rightarrow> v)"

definition truthy :: "string option \<Rightarrow> bool" where
  "truthy x = (case x of None \<Rightarrow> False | Some s \<Rightarrow> s \<noteq> [])"

text \<open>\<^verbatim>\<open>x or default\<close> on an optional string: the default also replaces the empty string.\<close>

definition or_else :: "string option \<Rightarrow> string \<Rightarrow> string" where
  "or_else x dflt = (case x of None \<Rightarrow> dflt | Some s \<Rightarrow> (if s = [] then dflt else s))"

definition json_of_opt :: "string option \<Rightarrow> json" where
  "json_of_opt x = (case x of None \<Rightarrow> JNull | Some s \<Rightarrow> JStr s)"

text \<open>An optional string inside an f-string: \<^verbatim>\<open>None\<close> prints as \<^verbatim>\<open>None\<close>.\<close>

definition str_opt :: "string option \<Rightarrow> string" where
  "str_opt x = (case x of None \<Rightarrow> ''None'' | Some s \<Rightarrow> s)"

definition digit_char :: "nat \<Rightarrow> char" where
  "digit_char d = char_of (48 + d)"

text \<open>\<^verbatim>\<open>str(n)\<close> for a Python integer: its decimal digits, with a sign when negative.\<close>

function str_nat :: "nat \<Rightarrow> string" where
  "str_nat n = (if n < 10 then [digit_char n] else str_nat (n div 10) @ [digit_char (n mod 10)])"
  by pat_completeness auto
termination
  by (relation "measure id") auto

declare str_nat.simps [simp del]

definition str_int :: "int \<Rightarrow> string" where
  "str_int i = (if i < 0 then CHR ''-'' # str_nat (nat (- i)) else str_nat (nat i))"

definition is_digit :: "char \<Rightarrow> bool" where
  "is_digit c = (c \<in> set ''0123456789'')"

text \<open>\<^verbatim>\<open>str.isspace\<close> on the code points below 256.\<close>

definition is_space :: "char \<Rightarrow> bool" where
  "is_space c = ((of_char c :: nat) \<in> set [9, 10, 11, 12, 13, 28, 29, 30, 31, 32, 133, 160])"

text \<open>\<^verbatim>\<open>str.lower\<close> on the code points below 256.\<close>

definition lower_char :: "char \<Rightarrow> char" where
  "lower_char c =
     (let n = (of_char c :: nat)
      in if (65 \<le> n \<and> n \<le> 90) \<or> (192 \<le> n \<and> n \<le> 214) \<or> (216 \<le> n \<and> n \<le> 222)
         then char_of (n + 32) else c)"

definition lower :: "string \<Rightarrow> string" where
  "lower s = map lower_char s"

text \<open>\<^verbatim>\<open>s.startswith(p)\<close>, \<^verbatim>\<open>s.endswith(p)\<close> and \<^verbatim>\<open>sub in s\<close>.\<close>

fun startswith :: "string \<Rightarrow> string \<Rightarrow> bool" where
  "startswith s [] = True"
| "startswith [] (p # ps) = False"
| "startswith (c # cs) (p # ps) = (c = p \<and> startswith cs ps)"

definition endswith :: "string \<Rightarrow> string \<Rightarrow> bool" where
  "endswith s suf = startswith (rev s) (rev suf)"

fun contains :: "string \<Rightarrow> string \<Rightarrow> bool" where
  "contains [] sub = (sub = [])"
| "contains (c # cs) sub = (startswith (c # cs) sub \<or> contains cs sub)"

text \<open>\<^verbatim>\<open>sep.join(xs)\<close>.\<close>

fun join :: "string \<Rightarrow> string list \<Rightarrow> string" where
  "join sep [] = []"
| "join sep [x] = x"
| "join sep (x # y # ys) = x @ sep @ join sep (y # ys)"

text \<open>\<^verbatim>\<open>s.split(c)\<close> for a one-character separator: never an empty list.\<close>

fun split_on :: "char \<Rightarrow> string \<Rightarrow> string list" where
  "split_on sep [] = [[]]"
| "split_on sep (c # cs) =
     (if c = sep then [] # split_on sep cs
      else (case split_on sep cs of [] \<Rightarrow> [[c]] | w # ws \<Rightarrow> (c # w) # ws))"

text \<open>
  \<^verbatim>\<open>s.split()\<close> with no argument: the maximal runs of non-whitespace characters.  The first
  argument is the word being read.
\<close>

fun split_acc :: "string \<Rightarrow> string \<Rightarrow> string list" where
  "split_acc cur [] = (if cur = [] then [] else [cur])"
| "split_acc cur (c # cs) =
     (if is_space c then (if cur = [] then split_acc [] cs else cur # split_acc [] cs)
      else split_acc (cur @ [c]) cs)"

definition split_ws :: "string \<Rightarrow> string list" where
  "split_ws s = split_acc [] s"


text \<open>\<^verbatim>\<open>s.replace(a, b)\<close> for single characters.\<close>

definition replace_char :: "char \<Rightarrow> char \<Rightarrow> string \<Rightarrow> string" where
  "replace_char a b s = map (\<lambda>c. if c = a then b else c) s"

section \<open>STAC to GeoCroissant\<close>

subsection \<open>Name and version helpers\<close>

text \<open>\<^verbatim>\<open>re.sub(r"[^a-zA-Z0-9_\-]", "-", name)\<close>.\<close>

definition name_char :: "char \<Rightarrow> bool" where
  "name_char c =
     (let n = (of_char c :: nat)
      in (97 \<le> n \<and> n \<le> 122) \<or> (65 \<le> n \<and> n \<le> 90) \<or> (48 \<le> n \<and> n \<le> 57) \<or>
         c = CHR ''_'' \<or> c = CHR ''-'')"

definition sanitize_name :: "string \<Rightarrow> string" where
  "sanitize_name name = map (\<lambda>c. if name_char c then c else CHR ''-'') name"

text \<open>
  \<^verbatim>\<open>
  def ensure_semver(version):
      if not version: return "1.0.0"
      if version.startswith("v"): version = version[1:]
      parts = version.split(".")
      if len(parts) == 2: parts.append("0")
      return ".".join(parts[:3])
  \<close>
\<close>

definition ensure_semver :: "string \<Rightarrow> string" where
  "ensure_semver version =
     (if version = [] then ''1.0.0''
      else let v = (if startswith version ''v'' then drop 1 version else version);
               parts = split_on (CHR ''.'') v;
               parts' = (if length parts = 2 then parts @ [''0''] else parts)
           in join ''.'' (take 3 parts'))"

subsection \<open>Coordinate reference system from a WKT2 string\<close>

text \<open>
  \<^verbatim>\<open>re.search(r'UTM[^\d]*(\d+)', s, re.IGNORECASE)\<close>, group 1.  At a start position the
  pattern needs the three letters in either case, then takes every non-digit, then needs a
  digit; the group is the maximal run of digits there.  Giving back non-digits cannot help,
  since the character that follows is then a non-digit.  The search tries the start
  positions from left to right.
\<close>

definition utm_match_here :: "string \<Rightarrow> string option" where
  "utm_match_here s =
     (if startswith (lower (take 3 s)) ''utm'' then
        (let zone = takeWhile is_digit (dropWhile (\<lambda>c. \<not> is_digit c) (drop 3 s))
         in if zone = [] then None else Some zone)
      else None)"

fun utm_zone_search :: "string \<Rightarrow> string option" where
  "utm_zone_search [] = None"
| "utm_zone_search (c # cs) =
     (case utm_match_here (c # cs) of Some z \<Rightarrow> Some z | None \<Rightarrow> utm_zone_search cs)"

text \<open>
  \<^verbatim>\<open>re.search(r'AUTHORITY\["EPSG","(\d+)"\]', s)\<close>, group 1: the literal opening, the
  maximal run of digits (at least one), then the closing quote and bracket.
\<close>

definition epsg_open :: string where
  "epsg_open = ''AUTHORITY['' @ [CHR 0x22] @ ''EPSG'' @ [CHR 0x22] @ '','' @ [CHR 0x22]"

definition epsg_close :: string where
  "epsg_close = [CHR 0x22] @ '']''"

definition epsg_match_here :: "string \<Rightarrow> string option" where
  "epsg_match_here s =
     (if startswith s epsg_open then
        (let r = drop (length epsg_open) s; code = takeWhile is_digit r
         in if code \<noteq> [] \<and> startswith (dropWhile is_digit r) epsg_close then Some code
            else None)
      else None)"

fun epsg_search :: "string \<Rightarrow> string option" where
  "epsg_search [] = None"
| "epsg_search (c # cs) =
     (case epsg_match_here (c # cs) of Some z \<Rightarrow> Some z | None \<Rightarrow> epsg_search cs)"

text \<open>
  \<^verbatim>\<open>
  def extract_crs_from_wkt2(wkt2_string):
      if not wkt2_string: return None
      if "PROJCS" in wkt2_string or "PROJECTION" in wkt2_string:
          if "Albers" in wkt2_string:
              return "Custom Albers Equal Area projection"
          elif "UTM" in wkt2_string:
              zone_match = re.search(r'UTM[^\d]*(\d+)', wkt2_string, re.IGNORECASE)
              if zone_match: return f"UTM Zone {zone_match.group(1)}"
              return "UTM projection"
          else:
              return "Custom projection (see proj:wkt2)"
      epsg_match = re.search(r'AUTHORITY\["EPSG","(\d+)"\]', wkt2_string)
      if epsg_match:
          epsg_code = epsg_match.group(1)
          if epsg_code not in ["9122", "9001"]:
              return f"EPSG:{epsg_code}"
      return None
  \<close>
\<close>

definition extract_crs_from_wkt2 :: "string \<Rightarrow> string option" where
  "extract_crs_from_wkt2 wkt2_string =
     (if wkt2_string = [] then None
      else if contains wkt2_string ''PROJCS'' \<or> contains wkt2_string ''PROJECTION'' then
        (if contains wkt2_string ''Albers'' then Some ''Custom Albers Equal Area projection''
         else if contains wkt2_string ''UTM'' then
           (case utm_zone_search wkt2_string of
              Some zone \<Rightarrow> Some (''UTM Zone '' @ zone)
            | None \<Rightarrow> Some ''UTM projection'')
         else Some ''Custom projection (see proj:wkt2)'')
      else
        (case epsg_search wkt2_string of
           Some epsg_code \<Rightarrow>
             (if epsg_code \<noteq> ''9122'' \<and> epsg_code \<noteq> ''9001'' then Some (''EPSG:'' @ epsg_code)
              else None)
         | None \<Rightarrow> None))"

subsection \<open>The source document\<close>

text \<open>
  The fields of a STAC document that \<^verbatim>\<open>stac_to_geocroissant\<close> reads for the keys modelled
  below; every one is optional, as the script reads them with \<^verbatim>\<open>.get\<close> or a membership
  test.  Coordinates are numbers of a type \<open>'n\<close>; the script only prints them, so their text
  is given by a function \<open>fmt\<close> (Python's \<^verbatim>\<open>str\<close>).
\<close>

record band =
  band_name :: "string option"

record asset =
  a_description :: "string option"
  a_title :: "string option"
  a_href :: "string option"
  a_type :: "string option"
  a_checksum_multihash :: "string option"
  a_file_checksum :: "string option"
  a_checksum_md5 :: "string option"
  a_bands :: "band list option"

record 'n stac_dict =
  sd_type :: "string option"
  sd_id :: "string option"
  sd_title :: "string option"
  sd_version :: "string option"
  sd_description :: "string option"
  sd_license :: "string option"
  sd_collection :: "string option"
  sd_sci_citation :: "string option"
  sd_bbox :: "'n list option"
  sd_extent_bbox :: "'n list list option"
  sd_start_datetime :: "string option"
  sd_end_datetime :: "string option"
  sd_datetime :: "string option"
  sd_created_datetime :: "string option"
  sd_interval :: "(string option \<times> string option) list option"
  sd_assets :: "(string \<times> asset) list"
  sd_proj_epsg :: "int option"
  sd_proj_wkt2 :: "string option"
  sd_summaries_epsg :: "int list option"

text \<open>The wall clock as the script reads it: \<^verbatim>\<open>datetime.utcnow()\<close>.\<close>

record clock =
  utc_year :: nat
  utc_isoformat :: string

subsection \<open>Spatial coverage\<close>

text \<open>
  \<^verbatim>\<open>
  bbox = None
  if is_item and "bbox" in stac_dict:
      bbox = stac_dict["bbox"]
  elif not is_item:
      spatial = stac_dict.get("extent", {}).get("spatial", {}).get("bbox")
      if spatial and spatial[0]:
          bbox = spatial[0]
  if bbox and len(bbox) >= 4:
      croissant["spatialCoverage"] = {"@type": "Place", "geo": {"@type": "GeoShape",
          "box": f"{bbox[1]} {bbox[0]} {bbox[3]} {bbox[2]}"}}
  \<close>
\<close>

definition select_bbox :: "bool \<Rightarrow> 'n stac_dict \<Rightarrow> 'n list option" where
  "select_bbox is_item d =
     (if is_item \<and> sd_bbox d \<noteq> None then sd_bbox d
      else if \<not> is_item then
        (case sd_extent_bbox d of
           Some (b # bs) \<Rightarrow> (if b \<noteq> [] then Some b else None)
         | _ \<Rightarrow> None)
      else None)"

definition geoshape_box :: "('n \<Rightarrow> string) \<Rightarrow> 'n list \<Rightarrow> string option" where
  "geoshape_box fmt bbox =
     (if bbox \<noteq> [] \<and> length bbox \<ge> 4
      then Some (fmt (bbox ! 1) @ '' '' @ fmt (bbox ! 0) @ '' '' @ fmt (bbox ! 3) @ '' '' @ fmt (bbox ! 2))
      else None)"

definition set_spatial_coverage :: "('n \<Rightarrow> string) \<Rightarrow> bool \<Rightarrow> 'n stac_dict \<Rightarrow> dict \<Rightarrow> dict" where
  "set_spatial_coverage fmt is_item d croissant =
     (case select_bbox is_item d of
        None \<Rightarrow> croissant
      | Some bbox \<Rightarrow>
          (case geoshape_box fmt bbox of
             None \<Rightarrow> croissant
           | Some box \<Rightarrow>
               dict_set ''spatialCoverage''
                 (JObj [(''@type'', JStr ''Place''),
                        (''geo'', JObj [(''@type'', JStr ''GeoShape''), (''box'', JStr box)])])
                 croissant))"

subsection \<open>Temporal coverage and publication date\<close>

text \<open>\<^verbatim>\<open>s.split("T")[0]\<close>.\<close>

definition before_T :: "string \<Rightarrow> string" where
  "before_T s = hd (split_on (CHR ''T'') s)"

text \<open>
  \<^verbatim>\<open>
  if is_item:
      if start_dt and end_dt:
          croissant["temporalCoverage"] = f"{start_dt}/{end_dt}"
          croissant["datePublished"] = start_dt.split("T")[0]
      elif datetime_val:
          croissant["temporalCoverage"] = datetime_val
          croissant["datePublished"] = datetime_val.split("T")[0]
      if "created_datetime" in props and "datePublished" not in croissant:
          croissant["datePublished"] = props["created_datetime"].split("T")[0]
  else:
      temporal = stac_dict.get("extent", {}).get("temporal", {}).get("interval")
      if temporal and temporal[0]:
          start, end = temporal[0][0], temporal[0][1]
          if start and end:
              croissant["temporalCoverage"] = f"{start}/{end}"
          elif start:
              croissant["temporalCoverage"] = start
          if start:
              croissant["datePublished"] = start.split("T")[0]
  if "datePublished" not in croissant:
      croissant["datePublished"] = datetime.utcnow().isoformat().split("T")[0]
  \<close>
  An interval is a pair, as STAC has it, so \<^verbatim>\<open>temporal[0]\<close> is never empty.
\<close>

definition temporal_item :: "'n stac_dict \<Rightarrow> dict \<Rightarrow> dict" where
  "temporal_item d croissant =
     (let c1 =
            (if truthy (sd_start_datetime d) \<and> truthy (sd_end_datetime d) then
               dict_set ''datePublished'' (JStr (before_T (get_or (sd_start_datetime d) [])))
                 (dict_set ''temporalCoverage''
                    (JStr (get_or (sd_start_datetime d) [] @ ''/'' @ get_or (sd_end_datetime d) [])) croissant)
             else if truthy (sd_datetime d) then
               dict_set ''datePublished'' (JStr (before_T (get_or (sd_datetime d) [])))
                 (dict_set ''temporalCoverage'' (JStr (get_or (sd_datetime d) [])) croissant)
             else croissant)
      in (case sd_created_datetime d of
            Some created \<Rightarrow>
              (if \<not> has_key ''datePublished'' c1
               then dict_set ''datePublished'' (JStr (before_T created)) c1 else c1)
          | None \<Rightarrow> c1))"

definition temporal_collection :: "'n stac_dict \<Rightarrow> dict \<Rightarrow> dict" where
  "temporal_collection d croissant =
     (case sd_interval d of
        Some ((start, end) # rest) \<Rightarrow>
          (let c1 =
                 (if truthy start \<and> truthy end then
                    dict_set ''temporalCoverage'' (JStr (get_or start [] @ ''/'' @ get_or end [])) croissant
                  else if truthy start then
                    dict_set ''temporalCoverage'' (JStr (get_or start [])) croissant
                  else croissant)
           in if truthy start then dict_set ''datePublished'' (JStr (before_T (get_or start []))) c1
              else c1)
      | _ \<Rightarrow> croissant)"

definition set_temporal_coverage :: "clock \<Rightarrow> bool \<Rightarrow> 'n stac_dict \<Rightarrow> dict \<Rightarrow> dict" where
  "set_temporal_coverage now is_item d croissant =
     (let c1 = (if is_item then temporal_item d croissant else temporal_collection d croissant)
      in if \<not> has_key ''datePublished'' c1
         then dict_set ''datePublished'' (JStr (before_T (utc_isoformat now))) c1
         else c1)"

subsection \<open>Distribution: one FileObject per asset\<close>

text \<open>
  \<^verbatim>\<open>
  for i, band in enumerate(bands):
      if "name" in band:
          band_config["geocr:bandNamesList"].append(band["name"])
      else:
          band_config["geocr:bandNamesList"].append(f"Band{i+1}")
  \<close>
\<close>

definition band_names_list :: "band list \<Rightarrow> string list" where
  "band_names_list bands =
     map (\<lambda>(i, b). case band_name b of Some n \<Rightarrow> n | None \<Rightarrow> ''Band'' @ str_nat (i + 1))
       (enumerate 0 bands)"

definition band_configuration :: "band list \<Rightarrow> json" where
  "band_configuration bands =
     JObj [(''@type'', JStr ''geocr:BandConfiguration''),
           (''geocr:totalBands'', JInt (int (length bands))),
           (''geocr:bandNamesList'', JList (map JStr (band_names_list bands)))]"

text \<open>
  The body of the loop over \<^verbatim>\<open>stac_dict.get("assets", {}).items()\<close>: the FileObject of one
  asset and the lines it prints.
  \<^verbatim>\<open>
  file_object = {"@type": "cr:FileObject", "@id": key, "name": key,
      "description": asset.get("description", asset.get("title", "")),
      "contentUrl": asset.get("href"),
      "encodingFormat": asset.get("type", "application/octet-stream")}
  if "checksum:multihash" in asset:
      file_object["sha256"] = asset["checksum:multihash"]
  elif "file:checksum" in asset:
      file_object["sha256"] = asset["file:checksum"]
  if "checksum:md5" in asset:
      file_object["md5"] = asset["checksum:md5"]
  if "sha256" not in file_object and "md5" not in file_object:
      file_object["sha256"] = "PLACEHOLDER-CHECKSUM-REQUIRED"
      print(f"  Warning: No checksum found for asset '{key}'. Added placeholder.")
      print(f"   Please compute SHA256 for: {asset.get('href', 'N/A')}")
  if "bands" in asset:
      bands = asset["bands"]
      if bands and len(bands) > 0:
          ...
          file_object["geocr:bandConfiguration"] = band_config
  \<close>
  The asset's \<^verbatim>\<open>gsd\<close>, which sets the dataset's spatial resolution, is left out.
\<close>

definition placeholder_checksum :: string where
  "placeholder_checksum = ''PLACEHOLDER-CHECKSUM-REQUIRED''"

definition checksum_warning :: "string \<Rightarrow> asset \<Rightarrow> string list" where
  "checksum_warning key a =
     [''  Warning: No checksum found for asset '' @ [CHR 0x27] @ key @ [CHR 0x27] @ ''. Added placeholder.'',
      ''   Please compute SHA256 for: '' @ get_or (a_href a) ''N/A'']"

definition asset_file_object :: "string \<Rightarrow> asset \<Rightarrow> dict \<times> string list" where
  "asset_file_object key a =
     (let fo0 = [(''@type'', JStr ''cr:FileObject''),
                 (''@id'', JStr key),
                 (''name'', JStr key),
                 (''description'', JStr (get_or (a_description a) (get_or (a_title a) []))),
                 (''contentUrl'', json_of_opt (a_href a)),
                 (''encodingFormat'', JStr (get_or (a_type a) ''application/octet-stream''))];
          fo1 = (case a_checksum_multihash a of
                   Some h \<Rightarrow> dict_set ''sha256'' (JStr h) fo0
                 | None \<Rightarrow>
                     (case a_file_checksum a of
                        Some h \<Rightarrow> dict_set ''sha256'' (JStr h) fo0
                      | None \<Rightarrow> fo0));
          fo2 = (case a_checksum_md5 a of
                   Some h \<Rightarrow> dict_set ''md5'' (JStr h) fo1
                 | None \<Rightarrow> fo1);
          missing = (\<not> has_key ''sha256'' fo2 \<and> \<not> has_key ''md5'' fo2);
          fo3 = (if missing then dict_set ''sha256'' (JStr placeholder_checksum) fo2 else fo2);
          printed = (if missing then checksum_warning key a else []);
          fo4 = (case a_bands a of
                   Some bands \<Rightarrow>
                     (if bands \<noteq> [] \<and> length bands > 0
                      then dict_set ''geocr:bandConfiguration'' (band_configuration bands) fo3
                      else fo3)
                 | None \<Rightarrow> fo3)
      in (fo4, printed))"

definition distribution :: "(string \<times> asset) list \<Rightarrow> dict list \<times> string list" where
  "distribution assets =
     (let rs = map (\<lambda>(key, a). asset_file_object key a) assets
      in (map fst rs, concat (map snd rs)))"

subsection \<open>Citation\<close>

text \<open>
  \<^verbatim>\<open>
  if is_collection:
      collection_name = stac_dict.get("title", name)
      croissant["citeAs"] = f"@misc{{{dataset_id}, title={{{collection_name}}}, year={{{datetime.utcnow().year}}}}}"
  else:
      collection_id = stac_dict.get("collection", dataset_id)
      croissant["citeAs"] = f"@misc{{{collection_id}, title={{{name}}}, year={{{datetime.utcnow().year}}}}}"
  if "sci:citation" in stac_dict:
      croissant["citeAs"] = stac_dict["sci:citation"]
      croissant["citation"] = stac_dict["sci:citation"]
  \<close>
\<close>

definition misc_entry :: "string \<Rightarrow> string \<Rightarrow> nat \<Rightarrow> string" where
  "misc_entry key ttl year = ''@misc{'' @ key @ '', title={'' @ ttl @ ''}, year={'' @ str_nat year @ ''}}''"

definition cite_as :: "clock \<Rightarrow> bool \<Rightarrow> string \<Rightarrow> 'n stac_dict \<Rightarrow> dict \<Rightarrow> dict" where
  "cite_as now is_collection name d croissant =
     (let c1 =
            (if is_collection
             then dict_set ''citeAs''
                    (JStr (misc_entry (str_opt (sd_id d)) (get_or (sd_title d) name) (utc_year now)))
                    croissant
             else dict_set ''citeAs''
                    (JStr (misc_entry (str_opt (case sd_collection d of Some c \<Rightarrow> Some c | None \<Rightarrow> sd_id d))
                       name (utc_year now)))
                    croissant)
      in (case sd_sci_citation d of
            Some cit \<Rightarrow> dict_set ''citation'' (JStr cit) (dict_set ''citeAs'' (JStr cit) c1)
          | None \<Rightarrow> c1))"

subsection \<open>Coordinate reference system key\<close>

text \<open>
  \<^verbatim>\<open>
  if is_item:
      if "proj:epsg" in props:
          croissant["geocr:coordinateReferenceSystem"] = f"EPSG:{props['proj:epsg']}"
      elif "proj:wkt2" in props:
          crs_result = extract_crs_from_wkt2(props["proj:wkt2"])
          if crs_result:
              croissant["geocr:coordinateReferenceSystem"] = crs_result
  else:
      summaries = stac_dict.get("summaries", {})
      if "proj:epsg" in summaries:
          epsg_codes = summaries["proj:epsg"]
          if epsg_codes and len(epsg_codes) > 0:
              croissant["geocr:coordinateReferenceSystem"] = f"EPSG:{epsg_codes[0]}"
  \<close>
\<close>

definition crs_key :: "bool \<Rightarrow> 'n stac_dict \<Rightarrow> dict \<Rightarrow> dict" where
  "crs_key is_item d croissant =
     (if is_item then
        (case sd_proj_epsg d of
           Some code \<Rightarrow> dict_set ''geocr:coordinateReferenceSystem'' (JStr (''EPSG:'' @ str_int code)) croissant
         | None \<Rightarrow>
             (case sd_proj_wkt2 d of
                Some wkt \<Rightarrow>
                  (case extract_crs_from_wkt2 wkt of
                     Some crs \<Rightarrow> dict_set ''geocr:coordinateReferenceSystem'' (JStr crs) croissant
                   | None \<Rightarrow> croissant)
              | None \<Rightarrow> croissant))
      else
        (case sd_summaries_epsg d of
           Some (code # codes) \<Rightarrow>
             dict_set ''geocr:coordinateReferenceSystem'' (JStr (''EPSG:'' @ str_int code)) croissant
         | _ \<Rightarrow> croissant))"

subsection \<open>The converter\<close>

text \<open>
  \<^verbatim>\<open>stac_to_geocroissant\<close>, from the clock and the document to the dictionary it returns and
  the warning lines it prints.  The keys follow the script's order of assignment.  Left out,
  as they are copied from the document without reading the clock or printing a warning: the
  constant \<^verbatim>\<open>@context\<close>, \<^verbatim>\<open>creator\<close>, \<^verbatim>\<open>url\<close>, \<^verbatim>\<open>references\<close>, \<^verbatim>\<open>fileSet\<close>,
  \<^verbatim>\<open>keywords\<close>, \<^verbatim>\<open>geocr:spatialResolution\<close> and \<^verbatim>\<open>isLiveDataset\<close>, and the two
  informational reports (detected type, unmapped fields).
\<close>

definition stac_to_geocroissant ::
  "('n \<Rightarrow> string) \<Rightarrow> clock \<Rightarrow> 'n stac_dict \<Rightarrow> dict \<times> string list" where
  "stac_to_geocroissant fmt now d =
     (let stac_type = lower (get_or (sd_type d) []);
          is_item = (stac_type = ''feature'');
          is_collection = (stac_type = ''collection'');
          name = (if is_item then sanitize_name (or_else (sd_id d) ''UnnamedItem'')
                  else sanitize_name (get_or (sd_title d) (or_else (sd_id d) ''UnnamedDataset'')));
          version = ensure_semver (get_or (sd_version d) ''1.0.0'');
          c0 = [(''@type'', JStr ''sc:Dataset''),
                (''@id'', json_of_opt (sd_id d)),
                (''name'', JStr name),
                (''description'', JStr (get_or (sd_description d) [])),
                (''version'', JStr version),
                (''license'', JStr (get_or (sd_license d) ''CC-BY-4.0'')),
                (''conformsTo'', JList [JStr ''http://mlcommons.org/croissant/1.0'',
                                        JStr ''http://mlcommons.org/croissant/geo/1.0''])];
          c1 = cite_as now is_collection name d c0;
          c2 = set_spatial_coverage fmt is_item d c1;
          c3 = set_temporal_coverage now is_item d c2;
          dist = distribution (sd_assets d);
          c4 = dict_set ''distribution'' (JList (map JObj (fst dist))) c3;
          c5 = crs_key is_item d c4
      in (c5, snd dist))"

section \<open>GeoCroissant to STAC\<close>



text \<open>
  \<^verbatim>\<open>
  temporal_coverage = geocroissant_data.get("temporalCoverage", "")
  if temporal_coverage and "/" in temporal_coverage:
      start_str, end_str = temporal_coverage.split("/")
      start_dt = datetime.fromisoformat(start_str)
      end_dt = datetime.fromisoformat(end_str)
      midpoint_dt = start_dt + (end_dt - start_dt) / 2
  else:
      start_dt = end_dt = None
      midpoint_dt = datetime.now()
  ...
  if start_dt and end_dt:
      properties["start_datetime"] = start_dt.isoformat() + "Z"
      properties["end_datetime"] = end_dt.isoformat() + "Z"
  \<close>
  The \<^verbatim>\<open>datetime\<close> library is a parameter: \<open>fromisoformat\<close> (\<open>None\<close> where it raises
  \<^verbatim>\<open>ValueError\<close>), \<open>isoformat\<close> and \<open>midpoint\<close>.  A \<^verbatim>\<open>datetime\<close> object is always truthy.
  The result is the item's \<^verbatim>\<open>datetime\<close> and the two properties.
\<close>

record 't datetime_lib =
  fromisoformat :: "string \<Rightarrow> 't option"
  isoformat :: "'t \<Rightarrow> string"
  midpoint :: "'t \<Rightarrow> 't \<Rightarrow> 't"

record 't stac_times =
  item_datetime :: 't
  start_datetime :: "string option"
  end_datetime :: "string option"

definition stac_temporal :: "'t datetime_lib \<Rightarrow> 't \<Rightarrow> string \<Rightarrow> py_error + 't stac_times" where
  "stac_temporal lib now temporal_coverage =
     (if temporal_coverage \<noteq> [] \<and> contains temporal_coverage ''/'' then
        (case split_on (CHR ''/'') temporal_coverage of
           [start_str, end_str] \<Rightarrow>
             (case fromisoformat lib start_str of
                None \<Rightarrow> Inl ValueError
              | Some start_dt \<Rightarrow>
                  (case fromisoformat lib end_str of
                     None \<Rightarrow> Inl ValueError
                   | Some end_dt \<Rightarrow>
                       Inr \<lparr>item_datetime = midpoint lib start_dt end_dt,
                            start_datetime = Some (isoformat lib start_dt @ ''Z''),
                            end_datetime = Some (isoformat lib end_dt @ ''Z'')\<rparr>))
         | _ \<Rightarrow> Inl ValueError)
      else Inr \<lparr>item_datetime = now, start_datetime = None, end_datetime = None\<rparr>)"

section \<open>Band count inferred from an array shape (SDO converter)\<close>

text \<open>
  \<^verbatim>\<open>_generate_field_definitions\<close> in \<^verbatim>\<open>sdo_converter.py\<close>:
  \<^verbatim>\<open>
    num_bands = 1
    band_names = [var_name]
    if len(var_info['shape']) == 3:
        dims = var_info['shape']
        if dims[0] < dims[1] and dims[0] < dims[2]:
            num_bands = dims[0]
        elif dims[2] < dims[0] and dims[2] < dims[1]:
            num_bands = dims[2]
        if num_bands > 1:
            band_names = [f"{var_name}_band{i+1}" for i in range(num_bands)]
  \<close>
  A shape is a tuple of non-negative sizes.  The indexing happens only under the length
  test, so it is always in range.
\<close>

definition num_bands :: "nat list \<Rightarrow> nat" where
  "num_bands dims =
     (if length dims = 3 then
        (if dims ! 0 < dims ! 1 \<and> dims ! 0 < dims ! 2 then dims ! 0
         else if dims ! 2 < dims ! 0 \<and> dims ! 2 < dims ! 1 then dims ! 2
         else 1)
      else 1)"

definition band_names :: "string \<Rightarrow> nat list \<Rightarrow> string list" where
  "band_names var_name dims =
     (if length dims = 3 \<and> num_bands dims > 1
      then map (\<lambda>i. var_name @ ''_band'' @ str_nat (i + 1)) [0 ..< num_bands dims]
      else [var_name])"

section \<open>Encoding formats\<close>

text \<open>
  \<^verbatim>\<open>cloud_product_to_geocroissant\<close> in \<^verbatim>\<open>ceda.py\<close>:
  \<^verbatim>\<open>
  if product_url.endswith('.json'):
      encoding = 'application/json'
  elif product_url.endswith(('.nc', '.netcdf')):
      encoding = 'application/netcdf'
  elif product_url.endswith('.zarr'):
      encoding = 'application/zarr'
  else:
      encoding = "application/octet-stream"
  \<close>
\<close>

definition ceda_encoding :: "string \<Rightarrow> string" where
  "ceda_encoding product_url =
     (if endswith product_url ''.json'' then ''application/json''
      else if endswith product_url ''.nc'' \<or> endswith product_url ''.netcdf'' then ''application/netcdf''
      else if endswith product_url ''.zarr'' then ''application/zarr''
      else ''application/octet-stream'')"

text \<open>
  \<^verbatim>\<open>determine_encoding_format\<close> in the NASA-UMM converter:
  \<^verbatim>\<open>
  if url.endswith('.tif') or url.endswith('.tiff'): return "image/tiff"
  elif url.endswith('.jpg') or url.endswith('.jpeg'): return "image/jpeg"
  elif url.endswith('.json'): return "application/json"
  elif url.endswith('.xml'): return "application/xml"
  elif url.endswith('.hdf') or url.endswith('.h5'): return "application/x-hdf"
  elif url.endswith('.nc'): return "application/x-netcdf"
  elif 's3credentials' in url: return "application/octet-stream"
  else: return "application/octet-stream"
  \<close>
\<close>

definition determine_encoding_format :: "string \<Rightarrow> string \<Rightarrow> string \<Rightarrow> string" where
  "determine_encoding_format url url_type subtype =
     (if endswith url ''.tif'' \<or> endswith url ''.tiff'' then ''image/tiff''
      else if endswith url ''.jpg'' \<or> endswith url ''.jpeg'' then ''image/jpeg''
      else if endswith url ''.json'' then ''application/json''
      else if endswith url ''.xml'' then ''application/xml''
      else if endswith url ''.hdf'' \<or> endswith url ''.h5'' then ''application/x-hdf''
      else if endswith url ''.nc'' then ''application/x-netcdf''
      else if contains url ''s3credentials'' then ''application/octet-stream''
      else ''application/octet-stream'')"

section \<open>Polygons as WKT\<close>

text \<open>
  \<^verbatim>\<open>convert_polygon_to_wkt\<close> in the NASA-UMM converter:
  \<^verbatim>\<open>
  if not points: return ""
  coords = []
  for point in points:
      lon = point.get('Longitude', 0)
      lat = point.get('Latitude', 0)
      coords.append(f"{lon} {lat}")
  if coords and coords[0] != coords[-1]:
      coords.append(coords[0])
  return f"POLYGON(({', '.join(coords)}))"
  \<close>
  A point is a dictionary whose two keys may be missing; the default \<^verbatim>\<open>0\<close> prints as
  \<^verbatim>\<open>0\<close>.
\<close>

record 'n point =
  Longitude :: "'n option"
  Latitude :: "'n option"

definition coord_text :: "('n \<Rightarrow> string) \<Rightarrow> 'n option \<Rightarrow> string" where
  "coord_text fmt v = (case v of None \<Rightarrow> ''0'' | Some x \<Rightarrow> fmt x)"

definition ring_coords :: "('n \<Rightarrow> string) \<Rightarrow> 'n point list \<Rightarrow> string list" where
  "ring_coords fmt points =
     (let coords = map (\<lambda>p. coord_text fmt (Longitude p) @ '' '' @ coord_text fmt (Latitude p)) points
      in case coords of
           [] \<Rightarrow> coords
         | c # cs \<Rightarrow> (if c \<noteq> last coords then coords @ [c] else coords))"

definition convert_polygon_to_wkt :: "('n \<Rightarrow> string) \<Rightarrow> 'n point list \<Rightarrow> string" where
  "convert_polygon_to_wkt fmt points =
     (if points = [] then []
      else ''POLYGON(('' @ join '', '' (ring_coords fmt points) @ ''))'')"

text \<open>
  \<^verbatim>\<open>geocroissant_to_geodcat_jsonld\<close>, the polygon of a bounding box:
  \<^verbatim>\<open>
  bbox = geo_shape["box"].split()
  if len(bbox) == 4:
      south, west, north, east = bbox
      wkt_bbox = f"POLYGON(({west} {south}, {east} {south}, {east} {north}, {west} {north}, {west} {south}))"
  \<close>
\<close>

definition bbox_ring :: "string \<Rightarrow> string \<Rightarrow> string \<Rightarrow> string \<Rightarrow> string list" where
  "bbox_ring south west north east =
     [west @ '' '' @ south, east @ '' '' @ south, east @ '' '' @ north, west @ '' '' @ north,
      west @ '' '' @ south]"

definition wkt_bbox :: "string \<Rightarrow> string option" where
  "wkt_bbox box =
     (case split_ws box of
        [south, west, north, east] \<Rightarrow>
          Some (''POLYGON(('' @ west @ '' '' @ south @ '', '' @ east @ '' '' @ south @ '', '' @
                east @ '' '' @ north @ '', '' @ west @ '' '' @ north @ '', '' @
                west @ '' '' @ south @ ''))'')
      | _ \<Rightarrow> None)"

section \<open>Distributions with FileSets\<close>







text \<open>
  The distribution of the Earth Engine record (\<^verbatim>\<open>gee-geocr.py\<close>):
  \<^verbatim>\<open>
  "distribution": [{"@type": "cr:FileObject",
      "@id": f"sentinel2-bands-{ASSET_ID.replace('/', '-')}",
      "name": f"Sentinel-2 Bands for {ASSET_ID}",
      "description": f"Downloadable Sentinel-2 spectral bands for {ASSET_ID}",
      "contentUrl": f"https://earthengine.googleapis.com/v1alpha/projects/earthengine-public/assets/{ASSET_ID}",
      "encodingFormat": "application/json"}]
  \<close>
\<close>

definition ASSET_ID :: string where
  "ASSET_ID = ''COPERNICUS/S2/20170430T190351_20170430T190351_T10SEG''"

definition gee_distribution :: "string \<Rightarrow> dict list" where
  "gee_distribution asset_id =
     [[(''@type'', JStr ''cr:FileObject''),
       (''@id'', JStr (''sentinel2-bands-'' @ replace_char (CHR ''/'') (CHR ''-'') asset_id)),
       (''name'', JStr (''Sentinel-2 Bands for '' @ asset_id)),
       (''description'', JStr (''Downloadable Sentinel-2 spectral bands for '' @ asset_id)),
       (''contentUrl'', JStr (''https://earthengine.googleapis.com/v1alpha/projects/earthengine-public/assets/'' @ asset_id)),
       (''encodingFormat'', JStr ''application/json'')]]"

text \<open>What the invariants of a distribution list speak about.\<close>

definition entry_type :: "dict \<Rightarrow> string" where
  "entry_type e = (case dict_get e ''@type'' of Some (JStr t) \<Rightarrow> t | _ \<Rightarrow> [])"




definition has_checksum :: "dict \<Rightarrow> bool" where
  "has_checksum e = (has_key ''sha256'' e \<or> has_key ''md5'' e)"


section \<open>Readings of the standard library used in the examples\<close>

text \<open>
  \<^verbatim>\<open>float(s)\<close> on the decimal integer literals: an optional sign and digits.  Enough to run
  the bounding-box conversion on integer coordinates.
\<close>

definition digits_value :: "string \<Rightarrow> nat" where
  "digits_value s = foldl (\<lambda>acc c. 10 * acc + (of_char c - 48)) 0 s"

definition float_of_literal :: "string \<Rightarrow> int option" where
  "float_of_literal s =
     (case s of
        [] \<Rightarrow> None
      | c # cs \<Rightarrow>
          (if c = CHR ''-'' then
             (if cs \<noteq> [] \<and> list_all is_digit cs then Some (- int (digits_value cs)) else None)
           else if list_all is_digit (c # cs) then Some (int (digits_value (c # cs)))
           else None))"

text \<open>
  A stand-in \<^verbatim>\<open>datetime\<close> library for the examples: a timestamp is its own ISO text, and the
  midpoint of two timestamps is not computed.
\<close>

definition text_times :: "string datetime_lib" where
  "text_times = \<lparr>fromisoformat = (\<lambda>s. if s = [] then None else Some s),
                 isoformat = (\<lambda>t. t),
                 midpoint = (\<lambda>a b. a @ ''~'' @ b)\<rparr>"


section \<open>Predicates and example inputs of the statements\<close>

definition number_text_ok :: "('n \<Rightarrow> string) \<Rightarrow> (string \<Rightarrow> 'n option) \<Rightarrow> 'n \<Rightarrow> bool" where
  "number_text_ok fmt to_float x =
     (fmt x \<noteq> [] \<and> list_all (\<lambda>c. \<not> is_space c) (fmt x) \<and> to_float (fmt x) = Some x)"

text \<open>Example documents and clock readings.\<close>

definition empty_doc :: "int stac_dict" where
  "empty_doc =
     \<lparr>sd_type = None, sd_id = None, sd_title = None, sd_version = None, sd_description = None,
      sd_license = None, sd_collection = None, sd_sci_citation = None, sd_bbox = None,
      sd_extent_bbox = None, sd_start_datetime = None, sd_end_datetime = None,
      sd_datetime = None, sd_created_datetime = None, sd_interval = None, sd_assets = [],
      sd_proj_epsg = None, sd_proj_wkt2 = None, sd_summaries_epsg = None\<rparr>"

definition reversed_item :: "int stac_dict" where
  "reversed_item =
     empty_doc\<lparr>sd_type := Some ''Feature'', sd_id := Some ''scene-1'',
                sd_start_datetime := Some ''2021-06-01T00:00:00Z'',
                sd_end_datetime := Some ''2020-01-01T00:00:00Z''\<rparr>"

definition clock_2024 :: clock where
  "clock_2024 = \<lparr>utc_year = 2024, utc_isoformat = ''2024-12-31T23:59:59.000001''\<rparr>"

definition clock_2025 :: clock where
  "clock_2025 = \<lparr>utc_year = 2025, utc_isoformat = ''2025-01-01T00:00:01.000001''\<rparr>"

definition two_B1_bands :: "band list" where
  "two_B1_bands = [\<lparr>band_name = Some ''B1''\<rparr>, \<lparr>band_name = Some ''B1''\<rparr>]"

definition bare_asset :: asset where
  "bare_asset = \<lparr>a_description = None, a_title = None, a_href = Some ''https://example.org/a.tif'',
     a_type = None, a_checksum_multihash = None, a_file_checksum = None, a_checksum_md5 = None,
     a_bands = None\<rparr>"

text \<open>
  The document brings a publication date of its own: the cases in which the converter has
  set \<^verbatim>\<open>datePublished\<close> before it looks at the clock.
\<close>

definition has_own_date :: "'n stac_dict \<Rightarrow> bool" where
  "has_own_date d =
     (if lower (get_or (sd_type d) []) = ''feature''
      then (truthy (sd_start_datetime d) \<and> truthy (sd_end_datetime d)) \<or> truthy (sd_datetime d) \<or>
           sd_created_datetime d \<noteq> None
      else (case sd_interval d of
              Some ((start, end) # rest) \<Rightarrow> truthy start
            | _ \<Rightarrow> False))"

definition bare_item :: "int stac_dict" where
  "bare_item = empty_doc\<lparr>sd_type := Some ''Feature'', sd_id := Some ''scene-1''\<rparr>"

definition cited_item :: "int stac_dict" where
  "cited_item = reversed_item\<lparr>sd_sci_citation := Some ''Doe et al. 2021''\<rparr>"

definition utm_wkt :: string where
  "utm_wkt = ''PROJCS['' @ [CHR 0x22] @ ''WGS 84 / UTM zone 33N'' @ [CHR 0x22] @ '','' @
     epsg_open @ ''32633'' @ epsg_close @ '']''"

definition wgs84_wkt :: string where
  "wgs84_wkt = ''GEOGCS['' @ [CHR 0x22] @ ''WGS 84'' @ [CHR 0x22] @ '','' @
     epsg_open @ ''4326'' @ epsg_close @ '']''"


section \<open>Theorems\<close>

subsection \<open>Facts about the string primitives\<close>

lemma startswith_iff: "startswith s p = (\<exists>t. s = p @ t)"
  by (induction s p rule: startswith.induct) auto




lemma split_on_nonempty: "split_on sep s \<noteq> []"
  by (induction s) (auto split: list.splits)

subsection \<open>Facts about dictionaries\<close>

lemma dict_get_dict_set: "dict_get (dict_set k v d) k' = (if k' = k then Some v else dict_get d k')"
  by (induction d) (auto simp: dict_get_def)

lemma keys_dict_set:
  "map fst (dict_set k v d) = (if k \<in> set (map fst d) then map fst d else map fst d @ [k])"
  by (induction d) force+

lemma has_key_dict_set: "has_key k' (dict_set k v d) = (k' = k \<or> has_key k' d)"
  unfolding has_key_def keys_dict_set by auto

lemma dict_set_twice: "dict_set k v (dict_set k v' d) = dict_set k v d"
  by (induction d) auto

lemma map_fst_dict_set_new: "\<not> has_key k d \<Longrightarrow> dict_set k v d = d @ [(k, v)]"
  by (induction d) (auto simp: has_key_def)

subsection \<open>Bounding boxes\<close>






text \<open>Every integer coordinate has a text of the kind the round trip asks for.\<close>

lemma digit_char_table:
  "list_all (\<lambda>d. is_digit (digit_char d) \<and> \<not> is_space (digit_char d) \<and>
      (of_char (digit_char d) :: nat) = 48 + d \<and> digit_char d \<noteq> CHR ''-'') [0 ..< 10]"
  by code_simp

lemma digit_char_props:
  "d < 10 \<Longrightarrow> is_digit (digit_char d) \<and> \<not> is_space (digit_char d) \<and>
     (of_char (digit_char d) :: nat) = 48 + d \<and> digit_char d \<noteq> CHR ''-''"
  using digit_char_table by (simp add: list_all_iff)

lemma str_nat_digits:
  "str_nat n \<noteq> [] \<and> list_all is_digit (str_nat n) \<and> list_all (\<lambda>c. \<not> is_space c) (str_nat n) \<and>
   hd (str_nat n) \<noteq> CHR ''-''"
proof (induction n rule: str_nat.induct)
  case (1 n)
  show ?case
  proof (cases "n < 10")
    case True
    then show ?thesis using digit_char_props [of n] by (simp add: str_nat.simps [of n])
  next
    case False
    then have m: "n mod 10 < 10" by simp
    from False 1 digit_char_props [OF m] show ?thesis
      by (simp add: str_nat.simps [of n])
  qed
qed

lemma digits_value_snoc: "digits_value (s @ [c]) = 10 * digits_value s + (of_char c - 48)"
  by (simp add: digits_value_def)

lemma digits_value_str_nat: "digits_value (str_nat n) = n"
proof (induction n rule: str_nat.induct)
  case (1 n)
  show ?case
  proof (cases "n < 10")
    case True
    then show ?thesis using digit_char_props [of n]
      by (simp add: str_nat.simps [of n] digits_value_def)
  next
    case False
    then have m: "n mod 10 < 10" by simp
    from False 1 digit_char_props [OF m] show ?thesis
      by (simp add: str_nat.simps [of n] digits_value_snoc)
  qed
qed

lemma float_of_literal_str_nat: "float_of_literal (str_nat n) = Some (int n)"
proof -
  obtain c cs where s: "str_nat n = c # cs" using str_nat_digits [of n] by (cases "str_nat n") auto
  with str_nat_digits [of n] have "c \<noteq> CHR ''-''" "list_all is_digit (c # cs)" by auto
  with s digits_value_str_nat [of n] show ?thesis by (simp add: float_of_literal_def)
qed

lemma str_int_text_ok: "number_text_ok str_int float_of_literal i"
proof (cases "i < 0")
  case True
  then have "int (nat (- i)) = - i" by simp
  with True str_nat_digits [of "nat (- i)"] digits_value_str_nat [of "nat (- i)"] show ?thesis
    by (simp add: number_text_ok_def str_int_def float_of_literal_def is_space_def)
next
  case False
  with str_nat_digits [of "nat i"] float_of_literal_str_nat [of "nat i"] show ?thesis
    by (simp add: number_text_ok_def str_int_def)
qed



subsection \<open>Band-axis inference\<close>

text \<open>
  C2 (as the code has it).  For a 3-dimensional shape \<open>(a, b, c)\<close>: when the first axis is
  strictly smaller than both others the band count is \<open>a\<close>; when the last axis is strictly
  smaller than both others the band count is \<open>c\<close>; in every other case, including the one
  where the middle axis alone is strictly smallest, the band count is 1.  Every
  2-dimensional shape yields 1 band.  The list of band names has one generated name per band
  when there is more than one band, and is the variable's own name otherwise.
\<close>

theorem num_bands_first_or_last_axis:
  "(a < b \<and> a < c \<longrightarrow> num_bands [a, b, c] = a) \<and>
   (c < a \<and> c < b \<longrightarrow> num_bands [a, b, c] = c) \<and>
   (\<not> (a < b \<and> a < c) \<and> \<not> (c < a \<and> c < b) \<longrightarrow> num_bands [a, b, c] = 1) \<and>
   (b < a \<and> b < c \<longrightarrow> num_bands [a, b, c] = 1) \<and>
   num_bands [h, w] = 1 \<and>
   (1 < num_bands [a, b, c] \<longrightarrow> length (band_names v [a, b, c]) = num_bands [a, b, c]) \<and>
   (num_bands [a, b, c] \<le> 1 \<longrightarrow> band_names v [a, b, c] = [v]) \<and>
   band_names v [h, w] = [v]"
  by (auto simp: num_bands_def band_names_def)

text \<open>
  An instance.
\<close>

theorem num_bands_first_or_last_axis_witness:
  "num_bands [13, 512, 512] = 13 \<and> num_bands [512, 512, 13] = 13 \<and>
   num_bands [512, 512, 512] = 1 \<and> num_bands [512, 512] = 1 \<and>
   length (band_names ''aia'' [13, 512, 512]) = 13 \<and>
   band_names ''aia'' [512, 512, 512] = [''aia''] \<and>
   band_names ''aia'' [512, 512] = [''aia'']"
  using num_bands_first_or_last_axis [of 13 512 512 512 512 "''aia''"]
    num_bands_first_or_last_axis [of 512 512 13 512 512 "''aia''"]
    num_bands_first_or_last_axis [of 512 512 512 512 512 "''aia''"]
  by simp

text \<open>
  C2 as stated fails: in shape \<open>(512, 13, 512)\<close> the middle axis is strictly smaller than
  both others, yet the inferred band count is 1, not 13.
\<close>

theorem num_bands_middle_axis_counterexample:
  "(13::nat) < 512 \<and> num_bands [512, 13, 512] = 1 \<and> num_bands [512, 13, 512] \<noteq> [512, 13, 512] ! 1"
  by (simp add: num_bands_def)

subsection \<open>Checksums\<close>

lemma stac_asset_placeholder:
  "a_checksum_multihash a = None \<Longrightarrow> a_file_checksum a = None \<Longrightarrow> a_checksum_md5 a = None \<Longrightarrow>
   dict_get (fst (asset_file_object key a)) ''sha256'' = Some (JStr ''PLACEHOLDER-CHECKSUM-REQUIRED'') \<and>
   has_checksum (fst (asset_file_object key a)) \<and>
   snd (asset_file_object key a) = checksum_warning key a"
  by (simp add: asset_file_object_def Let_def has_key_def has_checksum_def keys_dict_set
      dict_get_dict_set dict_get_def placeholder_checksum_def split: option.splits)

lemma stac_asset_always_has_checksum:
  "has_checksum (fst (asset_file_object key a))"
  by (simp add: asset_file_object_def Let_def has_checksum_def has_key_def keys_dict_set
      split: option.splits)

lemma stac_asset_with_checksum_is_silent:
  "a_checksum_multihash a \<noteq> None \<or> a_file_checksum a \<noteq> None \<or> a_checksum_md5 a \<noteq> None \<Longrightarrow>
   snd (asset_file_object key a) = []"
  by (auto simp: asset_file_object_def Let_def has_key_dict_set has_key_def split: option.splits)

text \<open>
  C3 at the Earth Engine converter.  Its distribution is one FileObject whose keys are
  \<^verbatim>\<open>@type\<close>, \<^verbatim>\<open>@id\<close>, \<^verbatim>\<open>name\<close>, \<^verbatim>\<open>description\<close>, \<^verbatim>\<open>contentUrl\<close> and
  \<^verbatim>\<open>encodingFormat\<close>: it has neither \<^verbatim>\<open>sha256\<close> nor \<^verbatim>\<open>md5\<close>, and no sentinel.
\<close>

theorem gee_file_object_without_checksum:
  "map (map fst) (gee_distribution ASSET_ID) =
     [[''@type'', ''@id'', ''name'', ''description'', ''contentUrl'', ''encodingFormat'']] \<and>
   map entry_type (gee_distribution ASSET_ID) = [''cr:FileObject''] \<and>
   map has_checksum (gee_distribution ASSET_ID) = [False] \<and>
   map (\<lambda>e. dict_get e ''sha256'') (gee_distribution ASSET_ID) = [None] \<and>
   map (\<lambda>e. dict_get e ''md5'') (gee_distribution ASSET_ID) = [None]"
  by (simp add: gee_distribution_def entry_type_def has_checksum_def has_key_def dict_get_def)

subsection \<open>Temporal ranges\<close>

lemma dict_get_cite_as:
  "k \<noteq> ''citeAs'' \<Longrightarrow> k \<noteq> ''citation'' \<Longrightarrow> dict_get (cite_as now ic name d c) k = dict_get c k"
  by (simp add: cite_as_def Let_def dict_get_dict_set split: option.splits)

lemma dict_get_spatial:
  "k \<noteq> ''spatialCoverage'' \<Longrightarrow> dict_get (set_spatial_coverage fmt it d c) k = dict_get c k"
  by (simp add: set_spatial_coverage_def dict_get_dict_set split: option.splits)











subsection \<open>Band names\<close>

lemma band_names_list_nth:
  "i < length bands \<Longrightarrow>
   band_names_list bands ! i = (case band_name (bands ! i) of Some n \<Rightarrow> n | None \<Rightarrow> ''Band'' @ str_nat (i + 1))"
  by (simp add: band_names_list_def nth_enumerate_eq)

lemma band_names_list_named:
  "map band_name bands = map Some names \<Longrightarrow> band_names_list bands = names"
proof -
  assume a: "map band_name bands = map Some names"
  then have len: "length bands = length names" by (metis length_map)
  show ?thesis
  proof (rule nth_equalityI)
    show "length (band_names_list bands) = length names"
      using len by (simp add: band_names_list_def)
  next
    fix i assume "i < length (band_names_list bands)"
    then have i: "i < length bands" by (simp add: band_names_list_def)
    then have "band_name (bands ! i) = Some (names ! i)"
      using a len by (metis nth_map)
    with i show "band_names_list bands ! i = names ! i"
      by (simp add: band_names_list_nth)
  qed
qed

text \<open>
  C5 (as the code has it).  The list of band names of an asset has one entry per source band,
  in the order of the source; each entry is the band's own name, verbatim, or
  \<^verbatim>\<open>Band<i+1>\<close> when the band has none.  Bands that share a name keep it: nothing is
  renamed, overwritten or dropped, and \<^verbatim>\<open>geocr:totalBands\<close> is the number of source
  bands.
\<close>

theorem band_names_kept_verbatim:
  "length (band_names_list bands) = length bands \<and>
   (\<forall>i < length bands.
      band_names_list bands ! i =
        (case band_name (bands ! i) of Some n \<Rightarrow> n | None \<Rightarrow> ''Band'' @ str_nat (i + 1))) \<and>
   (map band_name bands = map Some names \<longrightarrow> band_names_list bands = names) \<and>
   (a_bands a = Some bands \<and> bands \<noteq> [] \<longrightarrow>
      dict_get (fst (asset_file_object key a)) ''geocr:bandConfiguration'' =
        Some (JObj [(''@type'', JStr ''geocr:BandConfiguration''),
                    (''geocr:totalBands'', JInt (int (length bands))),
                    (''geocr:bandNamesList'', JList (map JStr (band_names_list bands)))]))"
proof -
  have l: "length (band_names_list bands) = length bands"
    by (simp add: band_names_list_def)
  have c: "a_bands a = Some bands \<and> bands \<noteq> [] \<longrightarrow>
      dict_get (fst (asset_file_object key a)) ''geocr:bandConfiguration'' =
        Some (JObj [(''@type'', JStr ''geocr:BandConfiguration''),
                    (''geocr:totalBands'', JInt (int (length bands))),
                    (''geocr:bandNamesList'', JList (map JStr (band_names_list bands)))])"
    by (simp add: asset_file_object_def Let_def dict_get_dict_set band_configuration_def)
  from l c band_names_list_nth [of _ bands] band_names_list_named [of bands names]
  show ?thesis by blast
qed

text \<open>
  C5 as stated fails: two bands both named \<^verbatim>\<open>B1\<close> give the names \<^verbatim>\<open>B1\<close>,
  \<^verbatim>\<open>B1\<close>, which are not unique; no suffix is appended.
\<close>

theorem band_names_kept_verbatim_counterexample:
  "band_names_list two_B1_bands = [''B1'', ''B1''] \<and>
   \<not> distinct (band_names_list two_B1_bands) \<and>
   band_names_list two_B1_bands \<noteq> [''B1'', ''B1_2'']"
  by (simp add: two_B1_bands_def band_names_list_def enumerate_eq_zip)

text \<open>
  An instance.
\<close>

theorem band_names_kept_verbatim_witness:
  "band_names_list two_B1_bands = [''B1'', ''B1''] \<and>
   band_names_list [\<lparr>band_name = Some ''red''\<rparr>, \<lparr>band_name = None\<rparr>] ! 1 = ''Band2'' \<and>
   dict_get (fst (asset_file_object ''visual'' (bare_asset\<lparr>a_bands := Some two_B1_bands\<rparr>)))
       ''geocr:bandConfiguration'' =
     Some (JObj [(''@type'', JStr ''geocr:BandConfiguration''),
                 (''geocr:totalBands'', JInt 2),
                 (''geocr:bandNamesList'', JList [JStr ''B1'', JStr ''B1''])])"
proof -
  have m: "map band_name two_B1_bands = map Some [''B1'', ''B1'']"
    by (simp add: two_B1_bands_def)
  have s: "str_nat (Suc (Suc 0)) = ''2''" by code_simp
  have b: "a_bands (bare_asset\<lparr>a_bands := Some two_B1_bands\<rparr>) = Some two_B1_bands \<and> two_B1_bands \<noteq> []"
    by (simp add: two_B1_bands_def)
  have n: "band_names_list two_B1_bands = [''B1'', ''B1'']"
    using band_names_kept_verbatim [of two_B1_bands "[''B1'', ''B1'']"] m by blast
  have i: "band_names_list [\<lparr>band_name = Some ''red''\<rparr>, \<lparr>band_name = None\<rparr>] ! 1 = ''Band2''"
    using band_names_kept_verbatim [of "[\<lparr>band_name = Some ''red''\<rparr>, \<lparr>band_name = None\<rparr>]"] s by simp
  have c: "dict_get (fst (asset_file_object ''visual'' (bare_asset\<lparr>a_bands := Some two_B1_bands\<rparr>)))
       ''geocr:bandConfiguration'' =
     Some (JObj [(''@type'', JStr ''geocr:BandConfiguration''),
                 (''geocr:totalBands'', JInt (int (length two_B1_bands))),
                 (''geocr:bandNamesList'', JList (map JStr (band_names_list two_B1_bands)))])"
    using band_names_kept_verbatim [of two_B1_bands _ "bare_asset\<lparr>a_bands := Some two_B1_bands\<rparr>" "''visual''"] b
    by blast
  have len: "length two_B1_bands = 2" by (simp add: two_B1_bands_def)
  from n i c show ?thesis by (simp add: len)
qed

subsection \<open>The clock\<close>

lemma cite_as_same_year:
  "utc_year now1 = utc_year now2 \<Longrightarrow> cite_as now1 ic name d c = cite_as now2 ic name d c"
  by (simp add: cite_as_def)

lemma cite_as_cited:
  "sd_sci_citation d = Some cit \<Longrightarrow> cite_as now1 ic name d c = cite_as now2 ic name d c"
  by (simp add: cite_as_def Let_def dict_set_twice)

lemma temporal_same_date:
  "before_T (utc_isoformat now1) = before_T (utc_isoformat now2) \<Longrightarrow>
   set_temporal_coverage now1 it d c = set_temporal_coverage now2 it d c"
  by (simp add: set_temporal_coverage_def Let_def)

lemma temporal_own_date:
  assumes "has_own_date d"
  shows "set_temporal_coverage now1 (lower (get_or (sd_type d) []) = ''feature'') d c =
         set_temporal_coverage now2 (lower (get_or (sd_type d) []) = ''feature'') d c"
proof (cases "lower (get_or (sd_type d) []) = ''feature''")
  case True
  with assms have "has_key ''datePublished'' (temporal_item d c)"
    by (auto simp: has_own_date_def temporal_item_def Let_def has_key_dict_set split: option.splits)
  with True show ?thesis by (simp add: set_temporal_coverage_def)
next
  case False
  with assms have "has_key ''datePublished'' (temporal_collection d c)"
    by (auto simp: has_own_date_def temporal_collection_def Let_def has_key_dict_set
        split: option.splits list.splits)
  with False show ?thesis by (simp add: set_temporal_coverage_def)
qed

text \<open>
  C6 (as the code has it).  \<^verbatim>\<open>stac_to_geocroissant\<close> is a function of the document and of
  the clock, which it reads for the year of the generated \<^verbatim>\<open>citeAs\<close> and for the fallback
  \<^verbatim>\<open>datePublished\<close>: two clock readings with the same year and the same date give the same
  output, and a document that carries \<^verbatim>\<open>sci:citation\<close> and a date of its own gives the
  same output at every clock reading.  \<^verbatim>\<open>geocroissant_to_stac\<close> reads the clock only when
  \<^verbatim>\<open>temporalCoverage\<close> is empty or has no \<^verbatim>\<open>/\<close>.
\<close>

theorem clock_enters_only_by_year_and_date:
  "(utc_year now1 = utc_year now2 \<and> before_T (utc_isoformat now1) = before_T (utc_isoformat now2) \<longrightarrow>
      stac_to_geocroissant fmt now1 d = stac_to_geocroissant fmt now2 d) \<and>
   (sd_sci_citation d \<noteq> None \<and> has_own_date d \<longrightarrow>
      stac_to_geocroissant fmt now1 d = stac_to_geocroissant fmt now2 d) \<and>
   (tc \<noteq> [] \<and> contains tc ''/'' \<longrightarrow> stac_temporal lib t1 tc = stac_temporal lib t2 tc) \<and>
   (tc = [] \<or> \<not> contains tc ''/'' \<longrightarrow>
      stac_temporal lib t1 tc = Inr \<lparr>item_datetime = t1, start_datetime = None, end_datetime = None\<rparr>)"
proof -
  have a: "utc_year now1 = utc_year now2 \<and>
      before_T (utc_isoformat now1) = before_T (utc_isoformat now2) \<longrightarrow>
      stac_to_geocroissant fmt now1 d = stac_to_geocroissant fmt now2 d"
    by (simp add: stac_to_geocroissant_def Let_def cite_as_same_year [of now1 now2]
        temporal_same_date [of now1 now2])
  have b: "sd_sci_citation d \<noteq> None \<and> has_own_date d \<longrightarrow>
      stac_to_geocroissant fmt now1 d = stac_to_geocroissant fmt now2 d"
  proof
    assume h: "sd_sci_citation d \<noteq> None \<and> has_own_date d"
    then obtain cit where cit: "sd_sci_citation d = Some cit" by auto
    show "stac_to_geocroissant fmt now1 d = stac_to_geocroissant fmt now2 d"
      unfolding stac_to_geocroissant_def Let_def
      by (simp only: cite_as_cited [OF cit, of now1 _ _ _ now2]
          temporal_own_date [of d now1 _ now2] h)
  qed
  have c: "tc \<noteq> [] \<and> contains tc ''/'' \<longrightarrow> stac_temporal lib t1 tc = stac_temporal lib t2 tc"
    by (simp add: stac_temporal_def)
  have e: "tc = [] \<or> \<not> contains tc ''/'' \<longrightarrow>
      stac_temporal lib t1 tc = Inr \<lparr>item_datetime = t1, start_datetime = None, end_datetime = None\<rparr>"
    by (auto simp: stac_temporal_def)
  from a b c e show ?thesis by blast
qed

text \<open>
  C6 as stated fails: the same document converted in 2024 and in 2025 gives two different
  outputs, and the same record exported at two moments gets two different item times.
\<close>

theorem clock_enters_only_by_year_and_date_counterexample:
  "stac_to_geocroissant str_int clock_2024 bare_item \<noteq> stac_to_geocroissant str_int clock_2025 bare_item \<and>
   dict_get (fst (stac_to_geocroissant str_int clock_2024 bare_item)) ''citeAs'' =
     Some (JStr ''@misc{scene-1, title={scene-1}, year={2024}}'') \<and>
   dict_get (fst (stac_to_geocroissant str_int clock_2025 bare_item)) ''citeAs'' =
     Some (JStr ''@misc{scene-1, title={scene-1}, year={2025}}'') \<and>
   dict_get (fst (stac_to_geocroissant str_int clock_2024 bare_item)) ''datePublished'' =
     Some (JStr ''2024-12-31'') \<and>
   dict_get (fst (stac_to_geocroissant str_int clock_2025 bare_item)) ''datePublished'' =
     Some (JStr ''2025-01-01'') \<and>
   stac_temporal text_times ''2024-12-31T23:59:59'' [] \<noteq>
     stac_temporal text_times ''2025-01-01T00:00:01'' []"
  by code_simp

text \<open>
  An instance.
\<close>

theorem clock_enters_only_by_year_and_date_witness:
  "stac_to_geocroissant str_int clock_2024 cited_item = stac_to_geocroissant str_int clock_2025 cited_item \<and>
   stac_to_geocroissant str_int clock_2024 bare_item =
     stac_to_geocroissant str_int (clock_2024\<lparr>utc_isoformat := ''2024-12-31T08:00:00''\<rparr>) bare_item \<and>
   stac_temporal text_times ''t1'' ''2020-01-01/2021-06-01'' =
     stac_temporal text_times ''t2'' ''2020-01-01/2021-06-01'' \<and>
   stac_temporal text_times ''t1'' [] =
     Inr \<lparr>item_datetime = ''t1'', start_datetime = None, end_datetime = None\<rparr>"
proof -
  have h: "sd_sci_citation cited_item \<noteq> None" "has_own_date cited_item"
    by code_simp+
  have y: "utc_year clock_2024 = utc_year (clock_2024\<lparr>utc_isoformat := ''2024-12-31T08:00:00''\<rparr>)"
    "before_T (utc_isoformat clock_2024) =
     before_T (utc_isoformat (clock_2024\<lparr>utc_isoformat := ''2024-12-31T08:00:00''\<rparr>))"
    by code_simp+
  have t: "''2020-01-01/2021-06-01'' \<noteq> []" "contains ''2020-01-01/2021-06-01'' ''/''"
    by code_simp+
  from clock_enters_only_by_year_and_date
    [of clock_2024 clock_2025 str_int cited_item "''2020-01-01/2021-06-01''" text_times "''t1''" "''t2''"] h t
  have a: "stac_to_geocroissant str_int clock_2024 cited_item =
      stac_to_geocroissant str_int clock_2025 cited_item"
    and c: "stac_temporal text_times ''t1'' ''2020-01-01/2021-06-01'' =
      stac_temporal text_times ''t2'' ''2020-01-01/2021-06-01''"
    by blast+
  from clock_enters_only_by_year_and_date
    [of clock_2024 "clock_2024\<lparr>utc_isoformat := ''2024-12-31T08:00:00''\<rparr>" str_int bare_item "[]"
       text_times "''t1''" "''t2''"] y
  have b: "stac_to_geocroissant str_int clock_2024 bare_item =
      stac_to_geocroissant str_int (clock_2024\<lparr>utc_isoformat := ''2024-12-31T08:00:00''\<rparr>) bare_item"
    and e: "stac_temporal text_times ''t1'' [] =
      Inr \<lparr>item_datetime = ''t1'', start_datetime = None, end_datetime = None\<rparr>"
    by blast+
  from a b c e show ?thesis by blast
qed

subsection \<open>CRS extraction\<close>

lemma utm_match_here_digits:
  "utm_match_here s = Some z \<Longrightarrow> z \<noteq> [] \<and> list_all is_digit z"
  by (auto simp: utm_match_here_def Let_def list_all_iff split: if_splits dest: set_takeWhileD)

lemma utm_zone_search_digits:
  "utm_zone_search s = Some z \<Longrightarrow> z \<noteq> [] \<and> list_all is_digit z"
  by (induction s) (auto split: option.splits dest: utm_match_here_digits)

lemma epsg_match_here_pair:
  assumes "epsg_match_here s = Some code"
  shows "code \<noteq> [] \<and> list_all is_digit code \<and> startswith s (epsg_open @ code @ epsg_close)"
proof -
  let ?r = "drop (length epsg_open) s"
  from assms have st: "startswith s epsg_open" and code: "code = takeWhile is_digit ?r"
    and ne: "code \<noteq> []" and cl: "startswith (dropWhile is_digit ?r) epsg_close"
    by (auto simp: epsg_match_here_def Let_def split: if_splits)
  from st obtain t where s: "s = epsg_open @ t" by (auto simp: startswith_iff)
  then have r: "?r = t" by simp
  from cl obtain t' where dw: "dropWhile is_digit ?r = epsg_close @ t'" by (auto simp: startswith_iff)
  have "t = takeWhile is_digit t @ dropWhile is_digit t" by simp
  with r dw code have "t = code @ epsg_close @ t'" by simp
  with s have "s = (epsg_open @ code @ epsg_close) @ t'" by simp
  then have "startswith s (epsg_open @ code @ epsg_close)" unfolding startswith_iff by blast
  moreover have "list_all is_digit code" unfolding code by (auto simp: list_all_iff dest: set_takeWhileD)
  ultimately show ?thesis using ne by simp
qed

lemma epsg_search_pair:
  "epsg_search s = Some code \<Longrightarrow>
   code \<noteq> [] \<and> list_all is_digit code \<and> contains s (epsg_open @ code @ epsg_close)"
proof (induction s)
  case Nil
  then show ?case by simp
next
  case (Cons c cs)
  show ?case
  proof (cases "epsg_match_here (c # cs)")
    case None
    with Cons show ?thesis by auto
  next
    case (Some z)
    with Cons.prems have "z = code" by simp
    with Some epsg_match_here_pair [of "c # cs" code] show ?thesis by simp
  qed
qed

text \<open>
  C7 (as the code has it).  The empty string gives no CRS.  A string that contains
  \<^verbatim>\<open>PROJCS\<close> or \<^verbatim>\<open>PROJECTION\<close> gives a label from its projection keywords, whatever
  authority codes it carries: the Albers label; else, with \<^verbatim>\<open>UTM\<close>, the zone number found
  by the pattern (a non-empty run of digits) or the plain UTM label; else the generic
  custom-projection label.  Any other string gives \<^verbatim>\<open>EPSG:<code>\<close> for the first
  \<^verbatim>\<open>AUTHORITY["EPSG","<digits>"]\<close> pair in it, unless that code is 9122 or 9001, and
  nothing when there is no such pair or the first one is 9122 or 9001.
\<close>

theorem crs_precedence:
  "extract_crs_from_wkt2 [] = None \<and>
   (s \<noteq> [] \<and> (contains s ''PROJCS'' \<or> contains s ''PROJECTION'') \<longrightarrow>
      (contains s ''Albers'' \<longrightarrow>
         extract_crs_from_wkt2 s = Some ''Custom Albers Equal Area projection'') \<and>
      (\<not> contains s ''Albers'' \<and> contains s ''UTM'' \<longrightarrow>
         (case utm_zone_search s of
            Some zone \<Rightarrow> zone \<noteq> [] \<and> list_all is_digit zone \<and>
                         extract_crs_from_wkt2 s = Some (''UTM Zone '' @ zone)
          | None \<Rightarrow> extract_crs_from_wkt2 s = Some ''UTM projection'')) \<and>
      (\<not> contains s ''Albers'' \<and> \<not> contains s ''UTM'' \<longrightarrow>
         extract_crs_from_wkt2 s = Some ''Custom projection (see proj:wkt2)'')) \<and>
   (s \<noteq> [] \<and> \<not> contains s ''PROJCS'' \<and> \<not> contains s ''PROJECTION'' \<longrightarrow>
      (case epsg_search s of
         Some code \<Rightarrow> code \<noteq> [] \<and> list_all is_digit code \<and>
                      contains s (epsg_open @ code @ epsg_close) \<and>
                      extract_crs_from_wkt2 s =
                        (if code = ''9122'' \<or> code = ''9001'' then None else Some (''EPSG:'' @ code))
       | None \<Rightarrow> extract_crs_from_wkt2 s = None))"
proof -
  have e: "extract_crs_from_wkt2 [] = None"
    by (simp add: extract_crs_from_wkt2_def)
  have p: "s \<noteq> [] \<and> (contains s ''PROJCS'' \<or> contains s ''PROJECTION'') \<longrightarrow>
      (contains s ''Albers'' \<longrightarrow>
         extract_crs_from_wkt2 s = Some ''Custom Albers Equal Area projection'') \<and>
      (\<not> contains s ''Albers'' \<and> contains s ''UTM'' \<longrightarrow>
         (case utm_zone_search s of
            Some zone \<Rightarrow> zone \<noteq> [] \<and> list_all is_digit zone \<and>
                         extract_crs_from_wkt2 s = Some (''UTM Zone '' @ zone)
          | None \<Rightarrow> extract_crs_from_wkt2 s = Some ''UTM projection'')) \<and>
      (\<not> contains s ''Albers'' \<and> \<not> contains s ''UTM'' \<longrightarrow>
         extract_crs_from_wkt2 s = Some ''Custom projection (see proj:wkt2)'')"
    using utm_zone_search_digits [of s]
    by (cases "utm_zone_search s") (simp_all add: extract_crs_from_wkt2_def)
  have g: "s \<noteq> [] \<and> \<not> contains s ''PROJCS'' \<and> \<not> contains s ''PROJECTION'' \<longrightarrow>
      (case epsg_search s of
         Some code \<Rightarrow> code \<noteq> [] \<and> list_all is_digit code \<and>
                      contains s (epsg_open @ code @ epsg_close) \<and>
                      extract_crs_from_wkt2 s =
                        (if code = ''9122'' \<or> code = ''9001'' then None else Some (''EPSG:'' @ code))
       | None \<Rightarrow> extract_crs_from_wkt2 s = None)"
    using epsg_search_pair [of s]
    by (cases "epsg_search s") (simp_all add: extract_crs_from_wkt2_def)
  from e p g show ?thesis by blast
qed

lemma crs_examples: "contains utm_wkt ''PROJCS''" "\<not> contains utm_wkt ''Albers''" "contains utm_wkt ''UTM''"
    "utm_zone_search utm_wkt = Some ''33''" "utm_wkt \<noteq> []"
    "epsg_search utm_wkt = Some ''32633''"
    "\<not> contains wgs84_wkt ''PROJCS''" "\<not> contains wgs84_wkt ''PROJECTION''" "wgs84_wkt \<noteq> []"
    "epsg_search wgs84_wkt = Some ''4326''"
  by code_simp+

text \<open>
  C7 as stated fails: a projected CRS that carries the explicit pair EPSG 32633, which is not
  on the deny-list, is reported by its keyword label, not by the authority code.
\<close>

theorem crs_precedence_counterexample:
  "epsg_search utm_wkt = Some ''32633'' \<and> ''32633'' \<noteq> ''9122'' \<and> ''32633'' \<noteq> ''9001'' \<and>
   extract_crs_from_wkt2 utm_wkt = Some ''UTM Zone 33'' \<and>
   extract_crs_from_wkt2 utm_wkt \<noteq> Some ''EPSG:32633''"
  by code_simp

text \<open>
  An instance.
\<close>

theorem crs_precedence_witness:
  "extract_crs_from_wkt2 utm_wkt = Some ''UTM Zone 33'' \<and>
   extract_crs_from_wkt2 wgs84_wkt = Some ''EPSG:4326''"
  using crs_precedence [of utm_wkt] crs_precedence [of wgs84_wkt]
  by (simp add: crs_examples)

subsection \<open>Encoding formats\<close>

text \<open>
  C8 (as the code has it).  The CEDA converter maps \<^verbatim>\<open>.json\<close> to
  \<^verbatim>\<open>application/json\<close>, \<^verbatim>\<open>.nc\<close> and \<^verbatim>\<open>.netcdf\<close> to \<^verbatim>\<open>application/netcdf\<close>,
  \<^verbatim>\<open>.zarr\<close> to \<^verbatim>\<open>application/zarr\<close>, and every other URL to
  \<^verbatim>\<open>application/octet-stream\<close>.  The NASA-UMM converter maps \<^verbatim>\<open>.tif\<close>/\<^verbatim>\<open>.tiff\<close> to
  \<^verbatim>\<open>image/tiff\<close>, \<^verbatim>\<open>.jpg\<close>/\<^verbatim>\<open>.jpeg\<close> to \<^verbatim>\<open>image/jpeg\<close>, \<^verbatim>\<open>.json\<close> to
  \<^verbatim>\<open>application/json\<close>, \<^verbatim>\<open>.xml\<close> to \<^verbatim>\<open>application/xml\<close>, \<^verbatim>\<open>.hdf\<close>/\<^verbatim>\<open>.h5\<close> to
  \<^verbatim>\<open>application/x-hdf\<close>, \<^verbatim>\<open>.nc\<close> to \<^verbatim>\<open>application/x-netcdf\<close>, and every other
  URL to \<^verbatim>\<open>application/octet-stream\<close>.
\<close>

theorem encoding_tables:
  "ceda_encoding (stem @ ''.json'') = ''application/json'' \<and>
   ceda_encoding (stem @ ''.nc'') = ''application/netcdf'' \<and>
   ceda_encoding (stem @ ''.netcdf'') = ''application/netcdf'' \<and>
   ceda_encoding (stem @ ''.zarr'') = ''application/zarr'' \<and>
   (\<not> endswith url ''.json'' \<and> \<not> endswith url ''.nc'' \<and> \<not> endswith url ''.netcdf'' \<and>
    \<not> endswith url ''.zarr'' \<longrightarrow> ceda_encoding url = ''application/octet-stream'') \<and>
   determine_encoding_format (stem @ ''.tif'') t u = ''image/tiff'' \<and>
   determine_encoding_format (stem @ ''.tiff'') t u = ''image/tiff'' \<and>
   determine_encoding_format (stem @ ''.jpg'') t u = ''image/jpeg'' \<and>
   determine_encoding_format (stem @ ''.jpeg'') t u = ''image/jpeg'' \<and>
   determine_encoding_format (stem @ ''.json'') t u = ''application/json'' \<and>
   determine_encoding_format (stem @ ''.xml'') t u = ''application/xml'' \<and>
   determine_encoding_format (stem @ ''.hdf'') t u = ''application/x-hdf'' \<and>
   determine_encoding_format (stem @ ''.h5'') t u = ''application/x-hdf'' \<and>
   determine_encoding_format (stem @ ''.nc'') t u = ''application/x-netcdf'' \<and>
   (\<not> endswith url ''.tif'' \<and> \<not> endswith url ''.tiff'' \<and> \<not> endswith url ''.jpg'' \<and>
    \<not> endswith url ''.jpeg'' \<and> \<not> endswith url ''.json'' \<and> \<not> endswith url ''.xml'' \<and>
    \<not> endswith url ''.hdf'' \<and> \<not> endswith url ''.h5'' \<and> \<not> endswith url ''.nc''
    \<longrightarrow> determine_encoding_format url t u = ''application/octet-stream'')"
proof -
  have ceda: "ceda_encoding (stem @ ''.json'') = ''application/json''"
    "ceda_encoding (stem @ ''.nc'') = ''application/netcdf''"
    "ceda_encoding (stem @ ''.netcdf'') = ''application/netcdf''"
    "ceda_encoding (stem @ ''.zarr'') = ''application/zarr''"
    by (simp_all add: ceda_encoding_def endswith_def)
  have ceda_else: "\<not> endswith url ''.json'' \<and> \<not> endswith url ''.nc'' \<and> \<not> endswith url ''.netcdf'' \<and>
    \<not> endswith url ''.zarr'' \<longrightarrow> ceda_encoding url = ''application/octet-stream''"
    by (simp add: ceda_encoding_def)
  have umm: "determine_encoding_format (stem @ ''.tif'') t u = ''image/tiff''"
    "determine_encoding_format (stem @ ''.tiff'') t u = ''image/tiff''"
    "determine_encoding_format (stem @ ''.jpg'') t u = ''image/jpeg''"
    "determine_encoding_format (stem @ ''.jpeg'') t u = ''image/jpeg''"
    "determine_encoding_format (stem @ ''.json'') t u = ''application/json''"
    "determine_encoding_format (stem @ ''.xml'') t u = ''application/xml''"
    "determine_encoding_format (stem @ ''.hdf'') t u = ''application/x-hdf''"
    "determine_encoding_format (stem @ ''.h5'') t u = ''application/x-hdf''"
    "determine_encoding_format (stem @ ''.nc'') t u = ''application/x-netcdf''"
    by (simp_all add: determine_encoding_format_def endswith_def)
  have umm_else: "\<not> endswith url ''.tif'' \<and> \<not> endswith url ''.tiff'' \<and> \<not> endswith url ''.jpg'' \<and>
    \<not> endswith url ''.jpeg'' \<and> \<not> endswith url ''.json'' \<and> \<not> endswith url ''.xml'' \<and>
    \<not> endswith url ''.hdf'' \<and> \<not> endswith url ''.h5'' \<and> \<not> endswith url ''.nc''
    \<longrightarrow> determine_encoding_format url t u = ''application/octet-stream''"
    by (simp add: determine_encoding_format_def)
  from ceda ceda_else umm umm_else show ?thesis by blast
qed

text \<open>
  An instance.
\<close>

theorem encoding_tables_witness:
  "ceda_encoding ''https://ceda.example/tas.nc'' = ''application/netcdf'' \<and>
   ceda_encoding ''https://ceda.example/tas.parquet'' = ''application/octet-stream'' \<and>
   determine_encoding_format ''https://nasa.example/g.h5'' [] [] = ''application/x-hdf'' \<and>
   determine_encoding_format ''https://nasa.example/g.zarr'' [] [] = ''application/octet-stream''"
proof -
  have a: "\<not> endswith ''https://ceda.example/tas.parquet'' ''.json'' \<and>
     \<not> endswith ''https://ceda.example/tas.parquet'' ''.nc'' \<and>
     \<not> endswith ''https://ceda.example/tas.parquet'' ''.netcdf'' \<and>
     \<not> endswith ''https://ceda.example/tas.parquet'' ''.zarr''"
    by (simp add: endswith_def)
  have b: "\<not> endswith ''https://nasa.example/g.zarr'' ''.tif'' \<and> \<not> endswith ''https://nasa.example/g.zarr'' ''.tiff'' \<and>
     \<not> endswith ''https://nasa.example/g.zarr'' ''.jpg'' \<and> \<not> endswith ''https://nasa.example/g.zarr'' ''.jpeg'' \<and>
     \<not> endswith ''https://nasa.example/g.zarr'' ''.json'' \<and> \<not> endswith ''https://nasa.example/g.zarr'' ''.xml'' \<and>
     \<not> endswith ''https://nasa.example/g.zarr'' ''.hdf'' \<and> \<not> endswith ''https://nasa.example/g.zarr'' ''.h5'' \<and>
     \<not> endswith ''https://nasa.example/g.zarr'' ''.nc''"
    by (simp add: endswith_def)
  have c: "''https://ceda.example/tas.nc'' = ''https://ceda.example/tas'' @ ''.nc''"
    "''https://nasa.example/g.h5'' = ''https://nasa.example/g'' @ ''.h5''"
    by simp_all
  from encoding_tables [of "''https://ceda.example/tas''" "''https://ceda.example/tas.parquet''" "[]" "[]"]
    encoding_tables [of "''https://nasa.example/g''" "''https://nasa.example/g.zarr''" "[]" "[]"]
    a b
  show ?thesis unfolding c by blast
qed

text \<open>
  C8 as stated fails: the CEDA converter gives \<^verbatim>\<open>application/netcdf\<close> for \<^verbatim>\<open>.nc\<close>,
  the NASA-UMM converter gives \<^verbatim>\<open>application/x-hdf\<close> for \<^verbatim>\<open>.h5\<close> and the generic
  format for \<^verbatim>\<open>.zarr\<close>, and it gives \<^verbatim>\<open>image/jpeg\<close>, a format outside the stated
  table, for \<^verbatim>\<open>.jpg\<close>.
\<close>

theorem encoding_tables_counterexample:
  "ceda_encoding ''https://ceda.example/tas.nc'' = ''application/netcdf'' \<and>
   ''application/netcdf'' \<noteq> ''application/x-netcdf'' \<and>
   determine_encoding_format ''https://nasa.example/g.h5'' [] [] = ''application/x-hdf'' \<and>
   ''application/x-hdf'' \<noteq> ''application/x-hdf5'' \<and>
   determine_encoding_format ''https://nasa.example/g.zarr'' [] [] = ''application/octet-stream'' \<and>
   determine_encoding_format ''https://nasa.example/g.jpg'' [] [] = ''image/jpeg''"
  by (simp add: ceda_encoding_def determine_encoding_format_def endswith_def)

subsection \<open>FileSets\<close>





subsection \<open>Closed rings\<close>

lemma last_ring_coords: "ring_coords fmt points \<noteq> [] \<Longrightarrow>
  hd (ring_coords fmt points) = last (ring_coords fmt points)"
  by (auto simp: ring_coords_def Let_def split: list.splits)

text \<open>
  C10.  The ring that \<^verbatim>\<open>convert_polygon_to_wkt\<close> emits for a non-empty list of points is
  not empty and its first coordinate pair equals its last; the WKT text is
  \<^verbatim>\<open>POLYGON((...))\<close> around the pairs of that ring joined by \<^verbatim>\<open>", "\<close>.  The polygon that
  the GeoDCAT exporter derives from a bounding box is the ring of its four corners followed
  by the first corner again.
\<close>

theorem polygon_rings_closed:
  "(points \<noteq> [] \<longrightarrow>
      ring_coords fmt points \<noteq> [] \<and>
      hd (ring_coords fmt points) = last (ring_coords fmt points) \<and>
      convert_polygon_to_wkt fmt points = ''POLYGON(('' @ join '', '' (ring_coords fmt points) @ ''))'') \<and>
   (split_ws box = [south, west, north, east] \<longrightarrow>
      wkt_bbox box = Some (''POLYGON(('' @ join '', '' (bbox_ring south west north east) @ ''))'') \<and>
      hd (bbox_ring south west north east) = last (bbox_ring south west north east))"
proof -
  have ne: "points \<noteq> [] \<Longrightarrow> ring_coords fmt points \<noteq> []"
    by (cases points) (auto simp: ring_coords_def Let_def)
  have wkt: "points \<noteq> [] \<Longrightarrow>
      convert_polygon_to_wkt fmt points = ''POLYGON(('' @ join '', '' (ring_coords fmt points) @ ''))''"
    by (simp add: convert_polygon_to_wkt_def)
  have box: "split_ws box = [south, west, north, east] \<Longrightarrow>
      wkt_bbox box = Some (''POLYGON(('' @ join '', '' (bbox_ring south west north east) @ ''))'')"
    by (simp add: wkt_bbox_def bbox_ring_def)
  have ring: "hd (bbox_ring south west north east) = last (bbox_ring south west north east)"
    by (simp add: bbox_ring_def)
  from ne wkt box ring last_ring_coords [of fmt points] show ?thesis by blast
qed

text \<open>
  An instance.
\<close>

theorem polygon_rings_closed_witness:
  "ring_coords str_int [\<lparr>Longitude = Some 1, Latitude = Some 2\<rparr>, \<lparr>Longitude = Some 3, Latitude = None\<rparr>]
     = [''1 2'', ''3 0'', ''1 2''] \<and>
   convert_polygon_to_wkt str_int [\<lparr>Longitude = Some 1, Latitude = Some 2\<rparr>, \<lparr>Longitude = Some 3, Latitude = None\<rparr>]
     = ''POLYGON((1 2, 3 0, 1 2))'' \<and>
   wkt_bbox ''10 20 30 40'' = Some ''POLYGON((20 10, 40 10, 40 30, 20 30, 20 10))''"
proof -
  let ?ps = "[\<lparr>Longitude = Some (1::int), Latitude = Some 2\<rparr>, \<lparr>Longitude = Some 3, Latitude = None\<rparr>]"
  have ne: "?ps \<noteq> []" by simp
  have sp: "split_ws ''10 20 30 40'' = [''10'', ''20'', ''30'', ''40'']" by code_simp
  have rc: "ring_coords str_int ?ps = [''1 2'', ''3 0'', ''1 2'']" by code_simp
  from polygon_rings_closed [of ?ps str_int "''10 20 30 40''" "''10''" "''20''" "''30''" "''40''"] ne sp rc
  show ?thesis by (simp add: bbox_ring_def)
qed

end
